theory Spec2Isabelle
  imports Main "HOL-Library.Word" "HOL-Library.AList" "HOL-Library.Multiset"
begin

unbundle bit_operations_syntax

section \<open>Result parts of the go-hdb wire protocol (internal/protocol/result.go)\<close>

text \<open>
  A shallow embedding of \<^verbatim>\<open>internal/protocol/result.go\<close>: the result set identifier,
  the result field (one column descriptor), the result metadata part and the result set
  part. Go pointers to structs are modelled by the struct they point to (the session
  layer allocates them before it calls a part); the shared name table, which every
  \<^verbatim>\<open>resultField\<close> references through its \<^verbatim>\<open>fieldNames\<close> member, lives in the
  \<^verbatim>\<open>FieldSet\<close> and is passed explicitly. The \<^verbatim>\<open>if trace { ... }\<close> blocks only print
  and are left out.
\<close>

subsection \<open>Machine types\<close>

type_synonym byte = "8 word"
type_synonym int8 = "8 word"
type_synonym int16 = "16 word"
type_synonym uint32 = "32 word"
type_synonym uint64 = "64 word"

text \<open>Go's \<^verbatim>\<open>error\<close> values that occur here: the I/O error of a short read and the
  errors made by \<^verbatim>\<open>fmt.Errorf\<close>. \<open>None\<close> of type \<open>error option\<close> is \<^verbatim>\<open>nil\<close>.\<close>

datatype error = UnexpectedEOF | Errorf string

text \<open>A run-time panic of the Go program (index out of range).\<close>

datatype panic = IndexOutOfRange

text \<open>Go's \<^verbatim>\<open>int\<close> has 32 or 64 bits, depending on the target platform.\<close>

datatype int_size = Int32 | Int64

text \<open>The conversion \<^verbatim>\<open>int(x)\<close> of a \<^verbatim>\<open>uint32\<close> value: with a 64-bit \<^verbatim>\<open>int\<close> the
  value is kept, with a 32-bit \<^verbatim>\<open>int\<close> the bits are read as two's complement.\<close>

definition go_int :: "int_size \<Rightarrow> uint32 \<Rightarrow> int" where
  "go_int sz x = (case sz of Int32 \<Rightarrow> sint x | Int64 \<Rightarrow> uint x)"

subsection \<open>The byte cursor (package internal/bufio)\<close>

text \<open>The byte order of the fixed-width integers is fixed by the outer protocol;
  the cursor carries it.\<close>

datatype byte_order = LittleEndian | BigEndian

fun le_word :: "byte list \<Rightarrow> 'a::len word" where
  "le_word [] = 0"
| "le_word (b # bs) = ucast b OR push_bit 8 (le_word bs)"

fun le_bytes :: "nat \<Rightarrow> 'a::len word \<Rightarrow> byte list" where
  "le_bytes 0 w = []"
| "le_bytes (Suc n) w = ucast w # le_bytes n (drop_bit 8 w)"

definition decode_word :: "byte_order \<Rightarrow> byte list \<Rightarrow> 'a::len word" where
  "decode_word bo bs = (case bo of LittleEndian \<Rightarrow> le_word bs | BigEndian \<Rightarrow> le_word (rev bs))"

definition encode_word :: "byte_order \<Rightarrow> nat \<Rightarrow> 'a::len word \<Rightarrow> byte list" where
  "encode_word bo n w = (case bo of LittleEndian \<Rightarrow> le_bytes n w | BigEndian \<Rightarrow> rev (le_bytes n w))"

text \<open>
  Modelled from the spec: \<^verbatim>\<open>bufio.Reader\<close> of package \<^verbatim>\<open>internal/bufio\<close> is not among
  the sources. The spec describes it as a sequential, forward-only reader over a byte
  buffer with fixed-width integer reads, a "skip N bytes" primitive, a length-prefixed
  short-string read and a sticky first-error state; a read past the end yields zero and
  sets the error. \<open>input\<close> holds the bytes not yet consumed, \<open>err\<close> the sticky error.
\<close>

record Reader =
  order :: byte_order
  input :: "byte list"
  err :: "error option"

text \<open>Modelled from the spec: the common core of every read of the byte cursor. Once
  the error is set nothing is consumed; a short read consumes what is left and sets
  the error.\<close>

definition read_bytes :: "nat \<Rightarrow> Reader \<Rightarrow> byte list \<times> Reader" where
  "read_bytes n rd =
     (if err rd \<noteq> None then ([], rd)
      else if n \<le> length (input rd) then (take n (input rd), rd\<lparr>input := drop n (input rd)\<rparr>)
      else ([], rd\<lparr>input := [], err := Some UnexpectedEOF\<rparr>))"

text \<open>Modelled from the spec: \<^verbatim>\<open>read_i8\<close>, \<^verbatim>\<open>read_i16\<close>, \<^verbatim>\<open>read_u32\<close>, \<^verbatim>\<open>read_u64\<close>,
  \<^verbatim>\<open>skip(n)\<close> and \<^verbatim>\<open>sticky_error()\<close> of the byte cursor.\<close>

definition ReadInt8 :: "Reader \<Rightarrow> int8 \<times> Reader" where
  "ReadInt8 rd = (let (bs, rd') = read_bytes 1 rd in (decode_word (order rd) bs, rd'))"

definition ReadInt16 :: "Reader \<Rightarrow> int16 \<times> Reader" where
  "ReadInt16 rd = (let (bs, rd') = read_bytes 2 rd in (decode_word (order rd) bs, rd'))"

definition ReadUint32 :: "Reader \<Rightarrow> uint32 \<times> Reader" where
  "ReadUint32 rd = (let (bs, rd') = read_bytes 4 rd in (decode_word (order rd) bs, rd'))"

definition ReadUint64 :: "Reader \<Rightarrow> uint64 \<times> Reader" where
  "ReadUint64 rd = (let (bs, rd') = read_bytes 8 rd in (decode_word (order rd) bs, rd'))"

definition Skip :: "nat \<Rightarrow> Reader \<Rightarrow> Reader" where
  "Skip cnt rd = snd (read_bytes cnt rd)"

definition GetError :: "Reader \<Rightarrow> error option" where
  "GetError rd = err rd"

text \<open>Modelled from the spec: \<^verbatim>\<open>readShortUtf8\<close> is not among the sources. A short
  string is one length byte followed by that many bytes of text; the function returns
  the text and the length read from the length byte.\<close>

definition readShortUtf8 :: "Reader \<Rightarrow> byte list \<times> int \<times> Reader" where
  "readShortUtf8 rd =
     (let (l, rd1) = read_bytes 1 rd;
          size' = unat (decode_word (order rd) l :: byte);
          (b, rd2) = read_bytes size' rd1
      in (b, int size', rd2))"

text \<open>Modelled from the spec: \<^verbatim>\<open>bufio.Writer\<close> is not among the sources. It appends
  fixed-width integers to a byte buffer and has the same sticky error state.\<close>

record Writer =
  w_order :: byte_order
  outbuf :: "byte list"
  w_err :: "error option"

definition WriteUint64 :: "uint64 \<Rightarrow> Writer \<Rightarrow> Writer" where
  "WriteUint64 x wr =
     (if w_err wr \<noteq> None then wr
      else wr\<lparr>outbuf := outbuf wr @ encode_word (w_order wr) 8 x\<rparr>)"

subsection \<open>Result set identifier\<close>

definition resultsetIDSize :: int where
  "resultsetIDSize = 8"

text \<open>\<^verbatim>\<open>id *uint64\<close>: the field holds the value the pointer refers to.\<close>

record resultsetID =
  id_u64 :: uint64

definition resultsetID_size :: "resultsetID \<Rightarrow> int \<times> error option" where
  "resultsetID_size s = (resultsetIDSize, None)"

definition resultsetID_numArg :: "resultsetID \<Rightarrow> int" where
  "resultsetID_numArg s = 1"

definition resultsetID_setNumArg :: "int \<Rightarrow> resultsetID \<Rightarrow> resultsetID" where
  "resultsetID_setNumArg n s = s"

definition resultsetID_read :: "resultsetID \<Rightarrow> Reader \<Rightarrow> resultsetID \<times> Reader \<times> error option" where
  "resultsetID_read s rd =
     (let (id', rd') = ReadUint64 rd;
          s' = s\<lparr>id_u64 := id'\<rparr>
      in (s', rd', GetError rd'))"

definition resultsetID_write :: "resultsetID \<Rightarrow> Writer \<Rightarrow> Writer \<times> error option" where
  "resultsetID_write s wr = (WriteUint64 (id_u64 s) wr, None)"

subsection \<open>Name table\<close>

text \<open>
  Modelled from the spec: \<^verbatim>\<open>fieldNames\<close> and its methods \<^verbatim>\<open>addOffset\<close>, \<^verbatim>\<open>setName\<close>,
  \<^verbatim>\<open>name\<close> and \<^verbatim>\<open>sortOffsets\<close> are not among the sources. The spec describes a mapping
  from byte offset to decoded string: an offset is registered as a pending key (a key
  that is not yet resolved reads as the empty string, duplicates collapse), a resolved
  string is stored under its offset, a lookup of a key never collected yields the empty
  string, and the registered offsets are listed in ascending numeric order. The mapping
  is an association list with one entry per key; a name is the byte sequence of a Go
  string.
\<close>

type_synonym fieldNames = "(uint32 \<times> byte list) list"

definition addOffset :: "uint32 \<Rightarrow> fieldNames \<Rightarrow> fieldNames" where
  "addOffset offset nm = AList.update offset [] nm"

definition setName :: "uint32 \<Rightarrow> byte list \<Rightarrow> fieldNames \<Rightarrow> fieldNames" where
  "setName offset s nm = AList.update offset s nm"

definition name :: "fieldNames \<Rightarrow> uint32 \<Rightarrow> byte list" where
  "name nm offset = (case map_of nm offset of Some s \<Rightarrow> s | None \<Rightarrow> [])"

definition sortOffsets :: "fieldNames \<Rightarrow> uint32 list" where
  "sortOffsets nm = sort (remdups (map fst nm))"

subsection \<open>Result field (column descriptor)\<close>

type_synonym columnOptions = int8

definition coMandatory :: columnOptions where
  "coMandatory = 0x01"

definition coOptional :: columnOptions where
  "coOptional = 0x02"

definition tableName :: nat where "tableName = 0"
definition schemaName :: nat where "schemaName = 1"
definition columnName :: nat where "columnName = 2"
definition columnDisplayName :: nat where "columnDisplayName = 3"
definition maxNames :: nat where "maxNames = 4"

text \<open>\<^verbatim>\<open>TypeCode\<close> is declared outside the sources; \<^verbatim>\<open>TypeCode(rd.ReadInt8())\<close> keeps the
  eight bits read. Its predicates \<^verbatim>\<open>isVariableLength\<close> and \<^verbatim>\<open>isDecimalType\<close> are
  parameters of the functions that call them.\<close>

type_synonym TypeCode = "8 word"

text \<open>\<open>offsets\<close> is the array \<^verbatim>\<open>[maxNames]uint32\<close>, a list of \<open>maxNames\<close> elements.
  The member \<^verbatim>\<open>fieldNames\<close> refers to the name table of the field set.\<close>

record resultField =
  columnOptions :: columnOptions
  tc :: TypeCode
  fraction :: int16
  length_fld :: int16
  offsets :: "uint32 list"

definition newResultField :: resultField where
  "newResultField =
     \<lparr>columnOptions = 0, tc = 0, fraction = 0, length_fld = 0, offsets = replicate maxNames 0\<rparr>"

definition TypeCode_of :: "resultField \<Rightarrow> TypeCode" where
  "TypeCode_of f = tc f"

definition TypeLength :: "(TypeCode \<Rightarrow> bool) \<Rightarrow> resultField \<Rightarrow> 64 word \<times> bool" where
  "TypeLength isVariableLength f =
     (if isVariableLength (tc f) then (scast (length_fld f), True) else (0, False))"

definition TypePrecisionScale :: "(TypeCode \<Rightarrow> bool) \<Rightarrow> resultField \<Rightarrow> 64 word \<times> 64 word \<times> bool" where
  "TypePrecisionScale isDecimalType f =
     (if isDecimalType (tc f) then (scast (length_fld f), scast (fraction f), True)
      else (0, 0, False))"

definition Nullable :: "resultField \<Rightarrow> bool" where
  "Nullable f = (columnOptions f = coOptional)"

definition In :: "resultField \<Rightarrow> bool" where
  "In f = False"

definition Out :: "resultField \<Rightarrow> bool" where
  "Out f = True"

definition Name :: "fieldNames \<Rightarrow> resultField \<Rightarrow> byte list" where
  "Name nm f = name nm (offsets f ! columnDisplayName)"

text \<open>\<^verbatim>\<open>io.Reader\<close> is an interface; \<open>None\<close> is its \<^verbatim>\<open>nil\<close>.\<close>

definition lobReader :: "resultField \<Rightarrow> 'r option" where
  "lobReader f = None"

definition SetLobReader :: "'r option \<Rightarrow> resultField \<Rightarrow> resultField \<times> error option" where
  "SetLobReader rd f = (f, Some (Errorf ''result field does not support lob readers''))"

text \<open>One round of the loop over the four name offsets of \<^verbatim>\<open>resultField.read\<close>.\<close>

definition read_offset :: "nat \<Rightarrow> resultField \<times> fieldNames \<times> Reader \<Rightarrow> resultField \<times> fieldNames \<times> Reader" where
  "read_offset i = (\<lambda>(f, nm, rd).
     let (offset, rd') = ReadUint32 rd
     in (f\<lparr>offsets := (offsets f)[i := offset]\<rparr>, addOffset offset nm, rd'))"

definition resultField_read :: "resultField \<Rightarrow> fieldNames \<Rightarrow> Reader \<Rightarrow> resultField \<times> fieldNames \<times> Reader" where
  "resultField_read f nm rd =
     (let (co, rd1) = ReadInt8 rd;
          (t, rd2) = ReadInt8 rd1;
          (fr, rd3) = ReadInt16 rd2;
          (ln, rd4) = ReadInt16 rd3;
          rd5 = Skip 2 rd4;
          f' = f\<lparr>columnOptions := co, tc := t, fraction := fr, length_fld := ln\<rparr>
      in fold read_offset [0..<maxNames] (f', nm, rd5))"

subsection \<open>Result metadata\<close>

text \<open>\<^verbatim>\<open>FieldSet\<close> is declared outside the sources; the part uses its members
  \<^verbatim>\<open>fields\<close>, here \<open>fs_fields\<close> (a slice of fields, \<open>None\<close> for a \<^verbatim>\<open>nil\<close> entry), and
  \<^verbatim>\<open>names\<close> (the name table).\<close>

record FieldSet =
  fs_fields :: "resultField option list"
  names :: fieldNames

record resultMetadata =
  md_fieldSet :: FieldSet
  md_numArg :: int

definition resultMetadata_setNumArg :: "int \<Rightarrow> resultMetadata \<Rightarrow> resultMetadata" where
  "resultMetadata_setNumArg numArg r = r\<lparr>md_numArg := numArg\<rparr>"

text \<open>The first loop of \<^verbatim>\<open>resultMetadata.read\<close>: \<open>k\<close> rounds are left, \<open>i\<close> is the loop
  variable. The store \<^verbatim>\<open>r.fieldSet.fields[i] = field\<close> panics when \<open>i\<close> is out of range,
  after the field has been read.\<close>

fun read_fields :: "nat \<Rightarrow> nat \<Rightarrow> FieldSet \<Rightarrow> Reader \<Rightarrow> panic + FieldSet \<times> Reader" where
  "read_fields 0 i fs rd = Inr (fs, rd)"
| "read_fields (Suc k) i fs rd =
     (let (field, nm, rd') = resultField_read newResultField (names fs) rd
      in if i < length (fs_fields fs)
         then read_fields k (Suc i) \<lparr>fs_fields = (fs_fields fs)[i := Some field], names = nm\<rparr> rd'
         else Inl IndexOutOfRange)"

text \<open>One round of the second loop of \<^verbatim>\<open>resultMetadata.read\<close>.\<close>

definition resolve_name :: "int_size \<Rightarrow> uint32 \<Rightarrow> Reader \<times> fieldNames \<times> uint32 \<Rightarrow> Reader \<times> fieldNames \<times> uint32" where
  "resolve_name sz offset = (\<lambda>(rd, nm, pos).
     let diff = go_int sz (offset - pos);
         rd1 = (if diff > 0 then Skip (nat diff) rd else rd);
         (b, size', rd2) = readShortUtf8 rd1
     in (rd2, setName offset b nm, pos + word_of_int (1 + size')))"

definition resultMetadata_read :: "int_size \<Rightarrow> resultMetadata \<Rightarrow> Reader \<Rightarrow> panic + resultMetadata \<times> Reader \<times> error option" where
  "resultMetadata_read sz r rd =
     (case read_fields (nat (md_numArg r)) 0 (md_fieldSet r) rd of
        Inl p \<Rightarrow> Inl p
      | Inr (fs, rd1) \<Rightarrow>
          (let (rd2, nm, pos) = fold (resolve_name sz) (sortOffsets (names fs)) (rd1, names fs, 0)
           in Inr (r\<lparr>md_fieldSet := fs\<lparr>names := nm\<rparr>\<rparr>, rd2, GetError rd2)))"

text \<open>The name resolution as the specification words it: a running position counter
  that starts at 0; for each offset, if the offset is greater than the position, skip
  the difference; read one short string; store it under the offset; advance the
  position by one plus the length of the string just read.\<close>

definition spec_resolve_name :: "uint32 \<Rightarrow> Reader \<times> fieldNames \<times> nat \<Rightarrow> Reader \<times> fieldNames \<times> nat" where
  "spec_resolve_name offset = (\<lambda>(rd, nm, position).
     let rd1 = (if unat offset > position then Skip (unat offset - position) rd else rd);
         (s, size', rd2) = readShortUtf8 rd1
     in (rd2, setName offset s nm, position + 1 + length s))"

definition spec_resolve :: "fieldNames \<Rightarrow> Reader \<Rightarrow> Reader \<times> fieldNames \<times> nat" where
  "spec_resolve nm rd = fold spec_resolve_name (sortOffsets nm) (rd, nm, 0)"

subsection \<open>Result set\<close>

text \<open>\<^verbatim>\<open>FieldValues\<close> and its method \<^verbatim>\<open>read\<close> are outside the sources: the type is the
  parameter \<open>'fv\<close>, the method the parameter \<open>fv_read\<close>, which returns the new field
  values, the cursor it leaves and its error.\<close>

record 'fv resultset =
  rs_numArg :: int
  rs_fieldSet :: FieldSet
  fieldValues :: 'fv

definition resultset_setNumArg :: "int \<Rightarrow> 'fv resultset \<Rightarrow> 'fv resultset" where
  "resultset_setNumArg numArg r = r\<lparr>rs_numArg := numArg\<rparr>"

definition resultset_read ::
  "('fv \<Rightarrow> int \<Rightarrow> FieldSet \<Rightarrow> Reader \<Rightarrow> 'fv \<times> Reader \<times> error option) \<Rightarrow>
   'fv resultset \<Rightarrow> Reader \<Rightarrow> 'fv resultset \<times> Reader \<times> error option" where
  "resultset_read fv_read r rd =
     (let (fv, rd', e) = fv_read (fieldValues r) (rs_numArg r) (rs_fieldSet r) rd
      in (case e of
            Some x \<Rightarrow> (r\<lparr>fieldValues := fv\<rparr>, rd', Some x)
          | None \<Rightarrow> (r\<lparr>fieldValues := fv\<rparr>, rd', None)))"

text \<open>
  Modelled from the spec: \<^verbatim>\<open>FieldValues.read\<close> is not among the sources. The spec
  describes the row-value decoder \<^verbatim>\<open>decode(count, columns, cursor)\<close>: it decodes
  \<open>count\<close> rows against the column sequence, one value per column in the order of the
  columns, each value by the per-type decoder of the column's type code. The per-type
  decoders are outside the sources as well and are the parameter \<open>read_value\<close>; like
  the reads of the byte cursor they yield a value and the cursor they leave. An entry
  of the field slice that is \<^verbatim>\<open>nil\<close> holds no column and is passed over. The spec does
  not say that the decoder consults the error state of the cursor: \<open>fv_read_rows\<close>
  reports no error of its own, \<open>fv_read_rows_checked\<close> ends on the error state of the
  cursor.
\<close>

fun read_row :: "(TypeCode \<Rightarrow> Reader \<Rightarrow> 'v \<times> Reader) \<Rightarrow> resultField option list \<Rightarrow> Reader \<Rightarrow> 'v list \<times> Reader" where
  "read_row read_value [] rd = ([], rd)"
| "read_row read_value (None # cols) rd = read_row read_value cols rd"
| "read_row read_value (Some f # cols) rd =
     (let (v, rd1) = read_value (tc f) rd;
          (vs, rd2) = read_row read_value cols rd1
      in (v # vs, rd2))"

fun read_rows :: "(TypeCode \<Rightarrow> Reader \<Rightarrow> 'v \<times> Reader) \<Rightarrow> nat \<Rightarrow> resultField option list \<Rightarrow> Reader \<Rightarrow> 'v list \<times> Reader" where
  "read_rows read_value 0 cols rd = ([], rd)"
| "read_rows read_value (Suc n) cols rd =
     (let (vs, rd1) = read_row read_value cols rd;
          (ws, rd2) = read_rows read_value n cols rd1
      in (vs @ ws, rd2))"

definition fv_read_rows ::
  "(TypeCode \<Rightarrow> Reader \<Rightarrow> 'v \<times> Reader) \<Rightarrow> 'v list \<Rightarrow> int \<Rightarrow> FieldSet \<Rightarrow> Reader \<Rightarrow> 'v list \<times> Reader \<times> error option" where
  "fv_read_rows read_value fv rows fs rd =
     (let (vs, rd') = read_rows read_value (nat rows) (fs_fields fs) rd in (vs, rd', None))"

definition fv_read_rows_checked ::
  "(TypeCode \<Rightarrow> Reader \<Rightarrow> 'v \<times> Reader) \<Rightarrow> 'v list \<Rightarrow> int \<Rightarrow> FieldSet \<Rightarrow> Reader \<Rightarrow> 'v list \<times> Reader \<times> error option" where
  "fv_read_rows_checked read_value fv rows fs rd =
     (let (vs, rd') = read_rows read_value (nat rows) (fs_fields fs) rd in (vs, rd', GetError rd'))"


subsection \<open>Wire layout of a column descriptor\<close>

text \<open>The four name offsets held by the bytes 8 to 23 of a descriptor on the wire, in the
  order in which \<^verbatim>\<open>resultField.read\<close> reads them.\<close>

definition descriptor_offsets :: "byte_order \<Rightarrow> byte list \<Rightarrow> uint32 list" where
  "descriptor_offsets bo d =
     [decode_word bo (take 4 (drop 8 d)), decode_word bo (take 4 (drop 12 d)),
      decode_word bo (take 4 (drop 16 d)), decode_word bo (take 4 (drop 20 d))]"

section \<open>Properties\<close>

subsection \<open>Encoding and decoding of fixed-width integers\<close>

lemma length_le_bytes: "length (le_bytes n w) = n"
  by (induction n arbitrary: w) simp_all

lemma le_word_le_bytes: "le_word (le_bytes n w) = take_bit (8 * n) w"
proof (induction n arbitrary: w)
  case 0
  show ?case by simp
next
  case (Suc n)
  show ?case
    by (rule bit_word_eqI)
      (auto simp add: Suc bit_simps le_less_linear not_less)
qed

lemma decode_encode_word:
  "LENGTH('a::len) \<le> 8 * n \<Longrightarrow> decode_word bo (encode_word bo n (w :: 'a word)) = w"
  by (cases bo) (simp_all add: decode_word_def encode_word_def le_word_le_bytes take_bit_word_eq_self)

lemma length_encode_word: "length (encode_word bo n w) = n"
  by (cases bo) (simp_all add: encode_word_def length_le_bytes)

subsection \<open>The byte cursor on a well-formed stream\<close>

lemma read_bytes_ok:
  "length bs = n \<Longrightarrow>
   read_bytes n \<lparr>order = bo, input = bs @ rest, err = None\<rparr> = (bs, \<lparr>order = bo, input = rest, err = None\<rparr>)"
  by (simp add: read_bytes_def)

lemma read_bytes_short:
  "length bs < n \<Longrightarrow>
   read_bytes n \<lparr>order = bo, input = bs, err = None\<rparr> = ([], \<lparr>order = bo, input = [], err = Some UnexpectedEOF\<rparr>)"
  by (simp add: read_bytes_def)

lemma read_bytes_sticky: "err rd = Some e \<Longrightarrow> read_bytes n rd = ([], rd)"
  by (simp add: read_bytes_def)

lemma decode_word_single: "decode_word bo [b] = (b :: byte)"
  by (cases bo) (simp_all add: decode_word_def)

lemma ReadInt8_ok:
  "ReadInt8 \<lparr>order = bo, input = b # rest, err = None\<rparr> = (b, \<lparr>order = bo, input = rest, err = None\<rparr>)"
  using read_bytes_ok [of "[b]" 1 bo rest] by (simp add: ReadInt8_def decode_word_single)

lemma ReadInt16_ok:
  "length bs = 2 \<Longrightarrow>
   ReadInt16 \<lparr>order = bo, input = bs @ rest, err = None\<rparr> = (decode_word bo bs, \<lparr>order = bo, input = rest, err = None\<rparr>)"
  by (simp add: ReadInt16_def read_bytes_ok)

lemma ReadUint32_ok:
  "length bs = 4 \<Longrightarrow>
   ReadUint32 \<lparr>order = bo, input = bs @ rest, err = None\<rparr> = (decode_word bo bs, \<lparr>order = bo, input = rest, err = None\<rparr>)"
  by (simp add: ReadUint32_def read_bytes_ok)

lemma ReadUint64_ok:
  "length bs = 8 \<Longrightarrow>
   ReadUint64 \<lparr>order = bo, input = bs @ rest, err = None\<rparr> = (decode_word bo bs, \<lparr>order = bo, input = rest, err = None\<rparr>)"
  by (simp add: ReadUint64_def read_bytes_ok)

lemma Skip_ok:
  "length bs = n \<Longrightarrow>
   Skip n \<lparr>order = bo, input = bs @ rest, err = None\<rparr> = \<lparr>order = bo, input = rest, err = None\<rparr>"
  by (simp add: Skip_def read_bytes_ok)

subsection \<open>Reading column descriptors\<close>

lemma read_offset_ok:
  "length bs = 4 \<Longrightarrow>
   read_offset i (f, nm, \<lparr>order = bo, input = bs @ rest, err = None\<rparr>) =
     (f\<lparr>offsets := (offsets f)[i := decode_word bo bs]\<rparr>, addOffset (decode_word bo bs) nm,
      \<lparr>order = bo, input = rest, err = None\<rparr>)"
  by (simp add: read_offset_def ReadUint32_ok)

lemma upt_maxNames: "[0..<maxNames] = [0, 1, 2, 3]"
  by (simp add: maxNames_def upt_rec numeral_nat)

lemma resultField_read_layout:
  assumes "length fr = 2" "length ln = 2" "length filler = 2"
    and "length o1 = 4" "length o2 = 4" "length o3 = 4" "length o4 = 4"
    and "length (offsets f) = maxNames"
  shows "resultField_read f nm
           \<lparr>order = bo, input = co # t # fr @ ln @ filler @ o1 @ o2 @ o3 @ o4 @ rest, err = None\<rparr> =
         (f\<lparr>columnOptions := co, tc := t, fraction := decode_word bo fr, length_fld := decode_word bo ln,
            offsets := [decode_word bo o1, decode_word bo o2, decode_word bo o3, decode_word bo o4]\<rparr>,
          addOffset (decode_word bo o4) (addOffset (decode_word bo o3)
            (addOffset (decode_word bo o2) (addOffset (decode_word bo o1) nm))),
          \<lparr>order = bo, input = rest, err = None\<rparr>)"
proof -
  obtain a b c d where offs: "offsets f = [a, b, c, d]"
    using assms(8) by (auto simp add: maxNames_def length_Suc_conv numeral_eq_Suc)
  show ?thesis
    using assms(1-7)
    by (simp add: resultField_read_def ReadInt8_ok ReadInt16_ok Skip_ok read_offset_ok upt_maxNames offs)
qed


lemma list24:
  assumes "length (d :: 'a list) = 24"
  obtains x0 x1 x2 x3 x4 x5 x6 x7 x8 x9 x10 x11 x12 x13 x14 x15 x16 x17 x18 x19 x20 x21 x22 x23
  where "d = [x0, x1, x2, x3, x4, x5, x6, x7, x8, x9, x10, x11, x12, x13, x14, x15, x16, x17,
              x18, x19, x20, x21, x22, x23]"
  using assms by (auto simp add: numeral_eq_Suc length_Suc_conv)

lemma resultField_read_chunk:
  assumes "length d = 24"
  shows "\<exists>f. resultField_read newResultField nm \<lparr>order = bo, input = d @ rest, err = None\<rparr> =
           (f, fold addOffset (descriptor_offsets bo d) nm, \<lparr>order = bo, input = rest, err = None\<rparr>)"
proof -
  from assms obtain x0 x1 x2 x3 x4 x5 x6 x7 x8 x9 x10 x11 x12 x13 x14 x15 x16 x17 x18 x19 x20 x21 x22 x23
    where d: "d = [x0, x1, x2, x3, x4, x5, x6, x7, x8, x9, x10, x11, x12, x13, x14, x15, x16, x17,
              x18, x19, x20, x21, x22, x23]"
    by (rule list24)
  have "resultField_read newResultField nm
          \<lparr>order = bo, input = x0 # x1 # [x2, x3] @ [x4, x5] @ [x6, x7] @ [x8, x9, x10, x11] @
             [x12, x13, x14, x15] @ [x16, x17, x18, x19] @ [x20, x21, x22, x23] @ rest, err = None\<rparr> =
        (newResultField\<lparr>columnOptions := x0, tc := x1, fraction := decode_word bo [x2, x3],
            length_fld := decode_word bo [x4, x5],
            offsets := [decode_word bo [x8, x9, x10, x11], decode_word bo [x12, x13, x14, x15],
              decode_word bo [x16, x17, x18, x19], decode_word bo [x20, x21, x22, x23]]\<rparr>,
          addOffset (decode_word bo [x20, x21, x22, x23]) (addOffset (decode_word bo [x16, x17, x18, x19])
            (addOffset (decode_word bo [x12, x13, x14, x15]) (addOffset (decode_word bo [x8, x9, x10, x11]) nm))),
          \<lparr>order = bo, input = rest, err = None\<rparr>)"
    by (rule resultField_read_layout) (simp_all add: newResultField_def)
  then show ?thesis
    by (simp add: d descriptor_offsets_def)
qed

lemma read_fields_chunks:
  assumes "\<forall>d \<in> set descs. length d = 24"
    and "i + length descs \<le> length (fs_fields fs)"
  shows "\<exists>fl. read_fields (length descs) i fs \<lparr>order = bo, input = concat descs @ rest, err = None\<rparr> =
           Inr (\<lparr>fs_fields = fl, names = fold (\<lambda>d. fold addOffset (descriptor_offsets bo d)) descs (names fs)\<rparr>,
                \<lparr>order = bo, input = rest, err = None\<rparr>)"
  using assms
proof (induction descs arbitrary: i fs)
  case Nil
  then show ?case
    by (cases fs) simp
next
  case (Cons d descs)
  from Cons.prems have len: "length d = 24" by simp
  from resultField_read_chunk [OF len, of "names fs" bo "concat descs @ rest"]
  obtain f where f: "resultField_read newResultField (names fs)
      \<lparr>order = bo, input = d @ concat descs @ rest, err = None\<rparr> =
      (f, fold addOffset (descriptor_offsets bo d) (names fs), \<lparr>order = bo, input = concat descs @ rest, err = None\<rparr>)"
    by blast
  let ?fs = "\<lparr>fs_fields = (fs_fields fs)[i := Some f], names = fold addOffset (descriptor_offsets bo d) (names fs)\<rparr>"
  have "\<exists>fl. read_fields (length descs) (Suc i) ?fs \<lparr>order = bo, input = concat descs @ rest, err = None\<rparr> =
           Inr (\<lparr>fs_fields = fl, names = fold (\<lambda>d. fold addOffset (descriptor_offsets bo d)) descs (names ?fs)\<rparr>,
                \<lparr>order = bo, input = rest, err = None\<rparr>)"
    using Cons.prems by (intro Cons.IH) simp_all
  with f Cons.prems show ?case
    by simp
qed

lemma map_of_addOffset: "map_of (addOffset k nm) = (map_of nm)(k \<mapsto> [])"
  by (simp add: addOffset_def update_conv')

lemma map_of_setName: "map_of (setName k s nm) = (map_of nm)(k \<mapsto> s)"
  by (simp add: setName_def update_conv')

lemma map_of_fold_addOffset:
  "map_of (fold addOffset os nm) = (\<lambda>k. if k \<in> set os then Some [] else map_of nm k)"
  by (induction os arbitrary: nm) (auto simp add: map_of_addOffset)

lemma map_of_collect:
  "map_of (fold (\<lambda>d. fold addOffset (g d)) descs nm) =
     (\<lambda>k. if k \<in> (\<Union>d \<in> set descs. set (g d)) then Some [] else map_of nm k)"
  by (induction descs arbitrary: nm) (auto simp add: map_of_fold_addOffset)

lemma sortOffsets_keys: "sortOffsets nm = sorted_list_of_set (dom (map_of nm))"
  by (simp add: sortOffsets_def dom_map_of_conv_image_fst sorted_list_of_set_sort_remdups [symmetric])

lemma sortOffsets_cong: "map_of nm1 = map_of nm2 \<Longrightarrow> sortOffsets nm1 = sortOffsets nm2"
  by (simp add: sortOffsets_keys)

lemma resolve_name_cong:
  assumes "map_of nm1 = map_of nm2"
  shows "\<exists>rd' nm1' nm2' pos'. resolve_name sz offset (rd, nm1, pos) = (rd', nm1', pos') \<and>
           resolve_name sz offset (rd, nm2, pos) = (rd', nm2', pos') \<and> map_of nm1' = map_of nm2'"
  using assms by (simp add: resolve_name_def Let_def map_of_setName split: prod.splits)

lemma fold_resolve_name_cong:
  assumes "map_of nm1 = map_of nm2"
  shows "\<exists>rd' nm1' nm2' pos'. fold (resolve_name sz) os (rd, nm1, pos) = (rd', nm1', pos') \<and>
           fold (resolve_name sz) os (rd, nm2, pos) = (rd', nm2', pos') \<and> map_of nm1' = map_of nm2'"
  using assms
proof (induction os arbitrary: rd nm1 nm2 pos)
  case Nil
  then show ?case by simp
next
  case (Cons offset os)
  from resolve_name_cong [OF Cons.prems, of sz offset rd pos]
  obtain rd' nm1' nm2' pos' where
    "resolve_name sz offset (rd, nm1, pos) = (rd', nm1', pos')"
    "resolve_name sz offset (rd, nm2, pos) = (rd', nm2', pos')" "map_of nm1' = map_of nm2'"
    by blast
  with Cons.IH [of nm1' nm2' rd' pos'] show ?case
    by simp
qed

subsection \<open>The sticky error of the byte cursor\<close>

lemma ReadUint32_sticky: "err rd = Some e \<Longrightarrow> snd (ReadUint32 rd) = rd"
  by (simp add: ReadUint32_def read_bytes_sticky)

lemma Skip_sticky: "err rd = Some e \<Longrightarrow> Skip n rd = rd"
  by (simp add: Skip_def read_bytes_sticky)

lemma readShortUtf8_sticky: "err rd = Some e \<Longrightarrow> snd (snd (readShortUtf8 rd)) = rd"
  by (simp add: readShortUtf8_def read_bytes_sticky)

lemma read_offset_sticky:
  "err rd = Some e \<Longrightarrow> snd (snd (read_offset i (f, nm, rd))) = rd"
  by (simp add: read_offset_def ReadUint32_def read_bytes_sticky)

lemma fold_read_offset_sticky:
  "err rd = Some e \<Longrightarrow> snd (snd (fold read_offset is (f, nm, rd))) = rd"
proof (induction "is" arbitrary: f nm)
  case Nil
  show ?case by simp
next
  case (Cons i "is")
  obtain f' nm' rd' where step: "read_offset i (f, nm, rd) = (f', nm', rd')"
    by (cases "read_offset i (f, nm, rd)")
  with read_offset_sticky [OF Cons.prems, of i f nm] have "rd' = rd"
    by simp
  with step Cons show ?case
    by simp
qed

lemma resultField_read_sticky:
  "err rd = Some e \<Longrightarrow> snd (snd (resultField_read f nm rd)) = rd"
  by (simp add: resultField_read_def ReadInt8_def ReadInt16_def Skip_def read_bytes_sticky
      fold_read_offset_sticky)

lemma read_fields_sticky:
  "err rd = Some e \<Longrightarrow> read_fields k i fs rd = Inr (fs', rd') \<Longrightarrow> rd' = rd"
proof (induction k arbitrary: i fs)
  case 0
  then show ?case by simp
next
  case (Suc k)
  obtain f nm rd1 where step: "resultField_read newResultField (names fs) rd = (f, nm, rd1)"
    by (cases "resultField_read newResultField (names fs) rd")
  with resultField_read_sticky [OF Suc.prems(1), of newResultField "names fs"] have "rd1 = rd"
    by simp
  with step Suc show ?case
    by (simp split: if_splits)
qed

lemma resolve_name_sticky:
  "err rd = Some e \<Longrightarrow> fst (resolve_name sz offset (rd, nm, pos)) = rd"
  using readShortUtf8_sticky [of rd e]
  by (auto simp add: resolve_name_def Let_def Skip_sticky split: prod.splits)

lemma fold_resolve_name_sticky:
  "err rd = Some e \<Longrightarrow> fst (fold (resolve_name sz) os (rd, nm, pos)) = rd"
proof (induction os arbitrary: nm pos)
  case Nil
  show ?case by simp
next
  case (Cons offset os)
  obtain rd' nm' pos' where step: "resolve_name sz offset (rd, nm, pos) = (rd', nm', pos')"
    by (cases "resolve_name sz offset (rd, nm, pos)")
  with resolve_name_sticky [OF Cons.prems, of sz offset nm pos] have "rd' = rd"
    by simp
  with step Cons show ?case
    by simp
qed

lemma resultMetadata_read_error:
  assumes "resultMetadata_read sz r rd = Inr (r', rd', e)"
  shows "e = GetError rd'"
  using assms by (auto simp add: resultMetadata_read_def split: sum.splits prod.splits)

lemma resultMetadata_read_sticky:
  assumes "resultMetadata_read sz r rd = Inr (r', rd', e)" and "err rd = Some x"
  shows "e = Some x"
proof -
  from assms(1) obtain fs rd1 where p1: "read_fields (nat (md_numArg r)) 0 (md_fieldSet r) rd = Inr (fs, rd1)"
    and p2: "rd' = fst (fold (resolve_name sz) (sortOffsets (names fs)) (rd1, names fs, 0))"
    and p3: "e = GetError rd'"
    by (auto simp add: resultMetadata_read_def split: sum.splits prod.splits)
  from read_fields_sticky [OF assms(2) p1] have "rd1 = rd" .
  with p2 fold_resolve_name_sticky [OF assms(2)] have "rd' = rd"
    by simp
  with p3 assms(2) show ?thesis
    by (simp add: GetError_def)
qed

subsection \<open>The skip of the name resolution\<close>

lemma go_int_difference:
  assumes "pos \<le> offset" and "sz = Int32 \<longrightarrow> unat offset - unat pos < 2 ^ 31"
  shows "go_int sz (offset - pos) = int (unat offset - unat pos)"
proof -
  from assms(1) have "unat (offset - pos) = unat offset - unat pos"
    by (rule unat_sub)
  then have u: "uint (offset - pos) = int (unat offset - unat pos)"
    by (simp only: uint_nat)
  show ?thesis
  proof (cases sz)
    case Int64
    with u show ?thesis by (simp only: go_int_def int_size.case)
  next
    case Int32
    with assms(2) u have "uint (offset - pos) < 2 ^ 31"
      by simp
    moreover have "- (2 ^ 31) \<le> uint (offset - pos)"
      by (rule order_trans [of _ 0]) simp_all
    ultimately have "signed_take_bit 31 (uint (offset - pos)) = uint (offset - pos)"
      by (simp only: signed_take_bit_int_eq_self)
    then have "sint (offset - pos) = uint (offset - pos)"
      by (simp add: sint_uint)
    with Int32 u show ?thesis by (simp only: go_int_def int_size.case)
  qed
qed

lemma resolve_name_skip:
  assumes "go_int sz (offset - pos) = int d"
  shows "resolve_name sz offset (rd, nm, pos) =
     (case readShortUtf8 (if 0 < d then Skip d rd else rd) of
        (b, size', rd2) \<Rightarrow> (rd2, setName offset b nm, pos + word_of_int (1 + size')))"
  using assms by (simp add: resolve_name_def Let_def)


lemma resolve_name_refines_spec:
  assumes "pos \<le> offset" and "sz = Int32 \<longrightarrow> unat offset - unat pos < 2 ^ 31"
  shows "fst (resolve_name sz offset (rd, nm, pos)) = fst (spec_resolve_name offset (rd, nm, unat pos)) \<and>
         fst (snd (resolve_name sz offset (rd, nm, pos))) =
           fst (snd (spec_resolve_name offset (rd, nm, unat pos)))"
proof -
  define d where "d = unat offset - unat pos"
  have "go_int sz (offset - pos) = int d"
    unfolding d_def using assms by (rule go_int_difference)
  then have code: "resolve_name sz offset (rd, nm, pos) =
     (case readShortUtf8 (if 0 < d then Skip d rd else rd) of
        (b, size', rd2) \<Rightarrow> (rd2, setName offset b nm, pos + word_of_int (1 + size')))"
    by (rule resolve_name_skip)
  have spec: "spec_resolve_name offset (rd, nm, unat pos) =
     (case readShortUtf8 (if 0 < d then Skip d rd else rd) of
        (s, size', rd2) \<Rightarrow> (rd2, setName offset s nm, unat pos + 1 + length s))"
    by (simp add: spec_resolve_name_def d_def)
  show ?thesis
    unfolding code spec by (simp split: prod.splits)
qed

subsection \<open>Evaluation on concrete streams\<close>

lemma upt_0_4: "[0..<4] = [0, 1, 2, 3]"
  by (simp add: upt_rec numeral_nat)

lemma replicate_4: "replicate 4 x = [x, x, x, x]"
  by (simp add: numeral_nat)

lemma uint_minus_1_32: "uint (- 1 :: uint32) = 4294967295"
  by (simp add: unsigned_minus_1_eq_mask mask_eq_exp_minus_1)

lemma read_fields_numeral:
  "read_fields (numeral n) i fs rd = read_fields (Suc (pred_numeral n)) i fs rd"
  by (simp add: numeral_eq_Suc)

lemmas eval_defs = uint_minus_1_32 resultMetadata_read_def resultField_read_def read_offset_def newResultField_def
    ReadInt8_def ReadInt16_def ReadUint32_def Skip_def read_bytes_def decode_word_def GetError_def
    addOffset_def sortOffsets_def resolve_name_def go_int_def readShortUtf8_def setName_def
    upt_0_4 replicate_4 maxNames_def spec_resolve_def spec_resolve_name_def

text \<open>The two-column scenario of the specification: the descriptors name the offsets
  0, 0, 0, 0 and 0, 0, 8, 8, offset 0 holds the empty string, seven bytes of padding
  follow, offset 8 holds "COL".\<close>

lemma two_column_scenario:
  "resultMetadata_read sz
     \<lparr>md_fieldSet = \<lparr>fs_fields = [None, None], names = []\<rparr>, md_numArg = 2\<rparr>
     \<lparr>order = LittleEndian,
      input = [1, 9, 0, 0, 5, 0, 0, 0, 0, 0, 0, 0, 0, 0, 0, 0, 0, 0, 0, 0, 0, 0, 0, 0,
               2, 9, 0, 0, 5, 0, 0, 0, 0, 0, 0, 0, 0, 0, 0, 0, 8, 0, 0, 0, 8, 0, 0, 0,
               0, 0, 0, 0, 0, 0, 0, 0, 3, 0x43, 0x4F, 0x4C],
      err = None\<rparr> =
   Inr (\<lparr>md_fieldSet =
          \<lparr>fs_fields =
             [Some \<lparr>columnOptions = 1, tc = 9, fraction = 0, length_fld = 5, offsets = [0, 0, 0, 0]\<rparr>,
              Some \<lparr>columnOptions = 2, tc = 9, fraction = 0, length_fld = 5, offsets = [0, 0, 8, 8]\<rparr>],
           names = [(0, []), (8, [0x43, 0x4F, 0x4C])]\<rparr>,
         md_numArg = 2\<rparr>,
        \<lparr>order = LittleEndian, input = [], err = None\<rparr>, None)"
  by (cases sz) (simp_all add: eval_defs read_fields_numeral)

text \<open>The identifier scenario of the specification, in big-endian byte order: the bytes
  00 00 00 00 00 00 00 01 decode to the handle 1, which encodes to the same bytes.\<close>

lemma identifier_scenario:
  "resultsetID_read \<lparr>id_u64 = 0\<rparr> \<lparr>order = BigEndian, input = [0, 0, 0, 0, 0, 0, 0, 1], err = None\<rparr> =
     (\<lparr>id_u64 = 1\<rparr>, \<lparr>order = BigEndian, input = [], err = None\<rparr>, None) \<and>
   outbuf (fst (resultsetID_write \<lparr>id_u64 = 1\<rparr> \<lparr>w_order = BigEndian, outbuf = [], w_err = None\<rparr>)) =
     [0, 0, 0, 0, 0, 0, 0, 1]"
  by (simp add: resultsetID_read_def ReadUint64_def read_bytes_def decode_word_def GetError_def
      resultsetID_write_def WriteUint64_def encode_word_def numeral_eq_Suc drop_bit_Suc)

subsection \<open>Result set identifier\<close>

text \<open>
  C4: for every 64-bit handle \<open>x\<close> and either byte order, decoding the bytes that encoding
  a result set identifier holding \<open>x\<close> appends to a writer yields \<open>x\<close> again, whatever
  the identifier held before and whatever follows in the stream; the eight bytes are
  consumed, no error is reported, and \<^verbatim>\<open>write\<close> returns no error for any writer.
\<close>

theorem resultsetID_roundtrip:
  "resultsetID_read s0
     \<lparr>order = bo,
      input = drop (length pre)
        (outbuf (fst (resultsetID_write \<lparr>id_u64 = x\<rparr> \<lparr>w_order = bo, outbuf = pre, w_err = None\<rparr>))) @ rest,
      err = None\<rparr> =
     (\<lparr>id_u64 = x\<rparr>, \<lparr>order = bo, input = rest, err = None\<rparr>, None) \<and>
   snd (resultsetID_write s wr) = None"
proof -
  have "ReadUint64 \<lparr>order = bo, input = encode_word bo 8 x @ rest, err = None\<rparr> =
          (x, \<lparr>order = bo, input = rest, err = None\<rparr>)"
    by (simp add: ReadUint64_ok length_encode_word decode_encode_word)
  then show ?thesis
    by (simp add: resultsetID_read_def resultsetID_write_def WriteUint64_def GetError_def)
qed

text \<open>
  C7: \<^verbatim>\<open>setNumArg\<close> with any value returns the result set identifier unchanged,
  \<^verbatim>\<open>numArg\<close> reports 1 afterwards, and \<^verbatim>\<open>read\<close> after it is one \<^verbatim>\<open>ReadUint64\<close> on the
  cursor, stored as the handle, followed by the cursor's error: on a stream that starts
  with the eight bytes of \<open>x\<close> it stores \<open>x\<close> and consumes these eight bytes only, whatever
  count was set.
\<close>

theorem resultsetID_setNumArg_ignored:
  "resultsetID_setNumArg n s = s \<and>
   resultsetID_numArg (resultsetID_setNumArg n s) = 1 \<and>
   resultsetID_read (resultsetID_setNumArg n s) rd =
     (s\<lparr>id_u64 := fst (ReadUint64 rd)\<rparr>, snd (ReadUint64 rd), GetError (snd (ReadUint64 rd))) \<and>
   resultsetID_read (resultsetID_setNumArg n s) \<lparr>order = bo, input = encode_word bo 8 x @ rest, err = None\<rparr> =
     (s\<lparr>id_u64 := x\<rparr>, \<lparr>order = bo, input = rest, err = None\<rparr>, None)"
  by (simp add: resultsetID_setNumArg_def resultsetID_numArg_def resultsetID_read_def
      ReadUint64_ok length_encode_word decode_encode_word GetError_def split: prod.splits)

subsection \<open>Accessors of a result field\<close>

text \<open>
  C5 as stated fails: a field whose options byte is 0x03 reports not nullable although
  its options byte is not MANDATORY.
\<close>

theorem Nullable_mandatory_counterexample:
  "\<not> (\<not> Nullable \<lparr>columnOptions = 0x03, tc = 0, fraction = 0, length_fld = 0, offsets = [0, 0, 0, 0]\<rparr>
      \<longleftrightarrow> columnOptions \<lparr>columnOptions = 0x03, tc = 0, fraction = 0, length_fld = 0, offsets = [0, 0, 0, 0]\<rparr>
          = coMandatory)"
  by (simp add: Nullable_def coOptional_def coMandatory_def)

text \<open>
  C5, amended: a field reports nullable if and only if its options byte is OPTIONAL
  (0x02); a field whose options byte is MANDATORY (0x01) reports not nullable (the
  converse does not hold).
\<close>

theorem Nullable_iff_optional:
  "(Nullable f \<longleftrightarrow> columnOptions f = coOptional) \<and>
   (columnOptions f = coMandatory \<longrightarrow> \<not> Nullable f)"
  by (simp add: Nullable_def coOptional_def coMandatory_def)

theorem Nullable_iff_optional_witness:
  "columnOptions \<lparr>columnOptions = 0x01, tc = 0, fraction = 0, length_fld = 0, offsets = [0, 0, 0, 0]\<rparr> = coMandatory \<and>
   \<not> Nullable \<lparr>columnOptions = 0x01, tc = 0, fraction = 0, length_fld = 0, offsets = [0, 0, 0, 0]\<rparr>"
  using Nullable_iff_optional
    [of "\<lparr>columnOptions = 0x01, tc = 0, fraction = 0, length_fld = 0, offsets = [0, 0, 0, 0]\<rparr>"]
  by (simp add: coMandatory_def coOptional_def)

text \<open>
  C10: \<^verbatim>\<open>Nullable\<close> compares the options byte with OPTIONAL (0x02) for equality: an
  options byte 0x03, which has both the MANDATORY and the OPTIONAL bit set, reports not
  nullable, as does MANDATORY alone.
\<close>

theorem Nullable_strict_equality:
  "Nullable f = (columnOptions f = 0x02) \<and>
   (0x03 :: columnOptions) AND coOptional = coOptional \<and>
   (0x03 :: columnOptions) AND coMandatory = coMandatory \<and>
   Nullable (f\<lparr>columnOptions := 0x03\<rparr>) = False \<and>
   Nullable (f\<lparr>columnOptions := 0x01\<rparr>) = False \<and>
   Nullable (f\<lparr>columnOptions := 0x02\<rparr>) = True"
  by (simp add: Nullable_def coOptional_def coMandatory_def)

text \<open>
  C6: when the variable-length predicate is false of the type code, \<^verbatim>\<open>TypeLength\<close>
  returns length 0 and \<^verbatim>\<open>ok = false\<close>, and when the decimal-type predicate is false of it,
  \<^verbatim>\<open>TypePrecisionScale\<close> returns 0, 0 and \<^verbatim>\<open>ok = false\<close>, whatever length and fraction
  the descriptor holds.
\<close>

theorem accessors_not_applicable:
  "(\<not> isVariableLength t \<longrightarrow>
      TypeLength isVariableLength (f\<lparr>tc := t, fraction := fr, length_fld := ln\<rparr>) = (0, False)) \<and>
   (\<not> isDecimalType t \<longrightarrow>
      TypePrecisionScale isDecimalType (f\<lparr>tc := t, fraction := fr, length_fld := ln\<rparr>) = (0, 0, False))"
  by (simp add: TypeLength_def TypePrecisionScale_def)

theorem accessors_not_applicable_witness:
  "\<not> (\<lambda>t :: TypeCode. t = 9) 3 \<and>
   TypeLength (\<lambda>t. t = 9) \<lparr>columnOptions = 2, tc = 3, fraction = 7, length_fld = 100, offsets = [0, 0, 0, 0]\<rparr>
     = (0, False) \<and>
   \<not> (\<lambda>t :: TypeCode. t = 5) 3 \<and>
   TypePrecisionScale (\<lambda>t. t = 5) \<lparr>columnOptions = 2, tc = 3, fraction = 7, length_fld = 100, offsets = [0, 0, 0, 0]\<rparr>
     = (0, 0, False)"
  using accessors_not_applicable
    [where isVariableLength = "\<lambda>t. t = 9" and isDecimalType = "\<lambda>t. t = 5" and t = 3
       and f = "\<lparr>columnOptions = 2, tc = 0, fraction = 0, length_fld = 0, offsets = [0, 0, 0, 0]\<rparr>"
       and fr = 7 and ln = 100]
  by simp

text \<open>
  C8: for every argument \<^verbatim>\<open>SetLobReader\<close> returns an error and the field unchanged, and
  \<^verbatim>\<open>lobReader\<close> returns \<^verbatim>\<open>nil\<close>.
\<close>

theorem SetLobReader_unsupported:
  "SetLobReader rd f = (f, Some (Errorf ''result field does not support lob readers'')) \<and>
   (lobReader f :: 'r option) = None"
  by (simp add: SetLobReader_def lobReader_def)

subsection \<open>Decoding one column descriptor\<close>

text \<open>
  C2 as stated fails: one descriptor takes 24 bytes of the stream, not 18. Of a
  stream of 26 bytes \<^verbatim>\<open>resultField.read\<close> consumes 24, and on a stream that ends after
  18 bytes it runs into the end of the stream.
\<close>

theorem resultField_read_18_counterexample:
  "26 - length (input (snd (snd (resultField_read newResultField []
       \<lparr>order = LittleEndian,
        input = [1, 9, 0, 0, 5, 0, 0xAA, 0xBB, 0, 0, 0, 0, 1, 0, 0, 0, 0, 0, 0, 0, 0, 0, 0, 0, 1, 0x41],
        err = None\<rparr>)))) = 24 \<and>
   err (snd (snd (resultField_read newResultField []
       \<lparr>order = LittleEndian,
        input = [1, 9, 0, 0, 5, 0, 0xAA, 0xBB, 0, 0, 0, 0, 1, 0, 0, 0, 0, 0],
        err = None\<rparr>))) = Some UnexpectedEOF"
proof -
  have "resultField_read newResultField []
       \<lparr>order = LittleEndian,
        input = 1 # 9 # [0, 0] @ [5, 0] @ [0xAA, 0xBB] @ [0, 0, 0, 0] @ [1, 0, 0, 0] @ [0, 0, 0, 0] @
          [0, 0, 0, 0] @ [1, 0x41],
        err = None\<rparr> =
     (newResultField\<lparr>columnOptions := 1, tc := 9, fraction := decode_word LittleEndian [0, 0],
         length_fld := decode_word LittleEndian [5, 0],
         offsets := [decode_word LittleEndian [0, 0, 0, 0], decode_word LittleEndian [1, 0, 0, 0],
           decode_word LittleEndian [0, 0, 0, 0], decode_word LittleEndian [0, 0, 0, 0]]\<rparr>,
      addOffset (decode_word LittleEndian [0, 0, 0, 0]) (addOffset (decode_word LittleEndian [0, 0, 0, 0])
        (addOffset (decode_word LittleEndian [1, 0, 0, 0]) (addOffset (decode_word LittleEndian [0, 0, 0, 0]) []))),
      \<lparr>order = LittleEndian, input = [1, 0x41], err = None\<rparr>)"
    by (rule resultField_read_layout) (simp_all add: newResultField_def maxNames_def)
  moreover have "err (snd (snd (resultField_read newResultField []
       \<lparr>order = LittleEndian,
        input = 1 # 9 # [0, 0] @ [5, 0] @ [0xAA, 0xBB] @ [0, 0, 0, 0] @ [1, 0, 0, 0] @ [0, 0],
        err = None\<rparr>))) = Some UnexpectedEOF"
    by (simp add: resultField_read_def ReadInt8_def ReadInt16_def Skip_def read_offset_def
        ReadUint32_def read_bytes_def upt_maxNames)
  ultimately show ?thesis
    by simp
qed

text \<open>
  C2, amended: decoding one column descriptor consumes exactly 24 bytes of the byte
  stream: 1 byte options, 1 byte type code, 2 bytes fraction, 2 bytes length, 2 bytes
  filler, which do not enter the result, and four 4-byte offsets in the order table,
  schema, column, display name, each registered with the name table.
\<close>

theorem resultField_read_24_bytes:
  assumes "length fr = 2" "length ln = 2" "length filler = 2"
    and "length o1 = 4" "length o2 = 4" "length o3 = 4" "length o4 = 4"
    and "length (offsets f) = maxNames"
  shows "resultField_read f nm
           \<lparr>order = bo, input = co # t # fr @ ln @ filler @ o1 @ o2 @ o3 @ o4 @ rest, err = None\<rparr> =
         (f\<lparr>columnOptions := co, tc := t, fraction := decode_word bo fr, length_fld := decode_word bo ln,
            offsets := [decode_word bo o1, decode_word bo o2, decode_word bo o3, decode_word bo o4]\<rparr>,
          addOffset (decode_word bo o4) (addOffset (decode_word bo o3)
            (addOffset (decode_word bo o2) (addOffset (decode_word bo o1) nm))),
          \<lparr>order = bo, input = rest, err = None\<rparr>) \<and>
         length (co # t # fr @ ln @ filler @ o1 @ o2 @ o3 @ o4 @ rest) - length rest = 24"
  using resultField_read_layout [OF assms] assms(1-7) by simp

theorem resultField_read_24_bytes_witness:
  "resultField_read newResultField []
     \<lparr>order = LittleEndian,
      input = [2, 9, 0, 0, 5, 0, 0xAA, 0xBB, 0, 0, 0, 0, 1, 0, 0, 0, 8, 0, 0, 0, 8, 0, 0, 0, 7, 7],
      err = None\<rparr> =
   (\<lparr>columnOptions = 2, tc = 9, fraction = 0, length_fld = 5, offsets = [0, 1, 8, 8]\<rparr>,
    [(0, []), (1, []), (8, [])],
    \<lparr>order = LittleEndian, input = [7, 7], err = None\<rparr>)"
  using resultField_read_24_bytes [of "[0, 0]" "[5, 0]" "[0xAA, 0xBB]" "[0, 0, 0, 0]" "[1, 0, 0, 0]"
      "[8, 0, 0, 0]" "[8, 0, 0, 0]" newResultField "[]" LittleEndian 2 9 "[7, 7]"]
  by (simp add: newResultField_def maxNames_def decode_word_def addOffset_def)

subsection \<open>Decoding the result metadata\<close>

text \<open>
  C3: two metadata parts whose column descriptors (24 bytes each) are permutations of
  each other, followed by the same name block, decoded into the same field set, give
  the same cursor, the same error and name tables that assign the same string to every
  offset.
\<close>

theorem name_resolution_order_invariant:
  assumes perm: "mset descs1 = mset descs2"
    and len: "\<forall>d \<in> set descs1. length d = 24"
    and slots: "length descs1 \<le> length fl"
  shows "\<exists>r1 r2 rd' e.
     resultMetadata_read sz
       \<lparr>md_fieldSet = \<lparr>fs_fields = fl, names = nm0\<rparr>, md_numArg = int (length descs1)\<rparr>
       \<lparr>order = bo, input = concat descs1 @ block, err = None\<rparr> = Inr (r1, rd', e) \<and>
     resultMetadata_read sz
       \<lparr>md_fieldSet = \<lparr>fs_fields = fl, names = nm0\<rparr>, md_numArg = int (length descs2)\<rparr>
       \<lparr>order = bo, input = concat descs2 @ block, err = None\<rparr> = Inr (r2, rd', e) \<and>
     (\<forall>offset. name (names (md_fieldSet r1)) offset = name (names (md_fieldSet r2)) offset)"
proof -
  let ?collect = "\<lambda>descs. fold (\<lambda>d. fold addOffset (descriptor_offsets bo d)) descs nm0"
  let ?rd = "\<lparr>order = bo, input = block, err = None\<rparr>"
  from perm have sets: "set descs1 = set descs2"
    by (rule mset_eq_setD)
  from perm have lens: "length descs2 = length descs1"
    by (rule mset_eq_length [symmetric])
  have "\<exists>fl1. read_fields (length descs1) 0 \<lparr>fs_fields = fl, names = nm0\<rparr>
      \<lparr>order = bo, input = concat descs1 @ block, err = None\<rparr> =
      Inr (\<lparr>fs_fields = fl1,
             names = fold (\<lambda>d. fold addOffset (descriptor_offsets bo d)) descs1
               (names \<lparr>fs_fields = fl, names = nm0\<rparr>)\<rparr>, ?rd)"
    using len slots by (intro read_fields_chunks) simp_all
  then obtain fl1 where p1: "read_fields (length descs1) 0 \<lparr>fs_fields = fl, names = nm0\<rparr>
      \<lparr>order = bo, input = concat descs1 @ block, err = None\<rparr> =
      Inr (\<lparr>fs_fields = fl1, names = ?collect descs1\<rparr>, ?rd)"
    by auto
  have "\<exists>fl2. read_fields (length descs2) 0 \<lparr>fs_fields = fl, names = nm0\<rparr>
      \<lparr>order = bo, input = concat descs2 @ block, err = None\<rparr> =
      Inr (\<lparr>fs_fields = fl2,
             names = fold (\<lambda>d. fold addOffset (descriptor_offsets bo d)) descs2
               (names \<lparr>fs_fields = fl, names = nm0\<rparr>)\<rparr>, ?rd)"
    using len slots sets lens by (intro read_fields_chunks) simp_all
  then obtain fl2 where p2: "read_fields (length descs2) 0 \<lparr>fs_fields = fl, names = nm0\<rparr>
      \<lparr>order = bo, input = concat descs2 @ block, err = None\<rparr> =
      Inr (\<lparr>fs_fields = fl2, names = ?collect descs2\<rparr>, ?rd)"
    by auto
  have maps: "map_of (?collect descs1) = map_of (?collect descs2)"
    by (simp add: map_of_collect sets)
  then have offs: "sortOffsets (?collect descs2) = sortOffsets (?collect descs1)"
    by (rule sortOffsets_cong [symmetric])
  from fold_resolve_name_cong [OF maps, of sz "sortOffsets (?collect descs1)" ?rd 0]
  obtain rd' nm1' nm2' pos' where
    r1: "fold (resolve_name sz) (sortOffsets (?collect descs1)) (?rd, ?collect descs1, 0) = (rd', nm1', pos')"
    and r2: "fold (resolve_name sz) (sortOffsets (?collect descs1)) (?rd, ?collect descs2, 0) = (rd', nm2', pos')"
    and eq: "map_of nm1' = map_of nm2'"
    by blast
  have "resultMetadata_read sz
       \<lparr>md_fieldSet = \<lparr>fs_fields = fl, names = nm0\<rparr>, md_numArg = int (length descs1)\<rparr>
       \<lparr>order = bo, input = concat descs1 @ block, err = None\<rparr> =
       Inr (\<lparr>md_fieldSet = \<lparr>fs_fields = fl1, names = nm1'\<rparr>, md_numArg = int (length descs1)\<rparr>, rd', GetError rd')"
    by (simp add: resultMetadata_read_def p1 r1)
  moreover have "resultMetadata_read sz
       \<lparr>md_fieldSet = \<lparr>fs_fields = fl, names = nm0\<rparr>, md_numArg = int (length descs2)\<rparr>
       \<lparr>order = bo, input = concat descs2 @ block, err = None\<rparr> =
       Inr (\<lparr>md_fieldSet = \<lparr>fs_fields = fl2, names = nm2'\<rparr>, md_numArg = int (length descs2)\<rparr>, rd', GetError rd')"
    by (simp add: resultMetadata_read_def p2 offs r2)
  ultimately show ?thesis
    using eq by (simp add: name_def)
qed

theorem name_resolution_order_invariant_witness:
  "\<exists>r1 r2 rd' e.
     resultMetadata_read Int64
       \<lparr>md_fieldSet = \<lparr>fs_fields = [None, None], names = []\<rparr>, md_numArg = 2\<rparr>
       \<lparr>order = LittleEndian,
        input = [1, 9, 0, 0, 5, 0, 0, 0, 0, 0, 0, 0, 0, 0, 0, 0, 0, 0, 0, 0, 0, 0, 0, 0,
                 2, 9, 0, 0, 5, 0, 0, 0, 0, 0, 0, 0, 0, 0, 0, 0, 8, 0, 0, 0, 8, 0, 0, 0,
                 0, 0, 0, 0, 0, 0, 0, 0, 3, 0x43, 0x4F, 0x4C],
        err = None\<rparr> = Inr (r1, rd', e) \<and>
     resultMetadata_read Int64
       \<lparr>md_fieldSet = \<lparr>fs_fields = [None, None], names = []\<rparr>, md_numArg = 2\<rparr>
       \<lparr>order = LittleEndian,
        input = [2, 9, 0, 0, 5, 0, 0, 0, 0, 0, 0, 0, 0, 0, 0, 0, 8, 0, 0, 0, 8, 0, 0, 0,
                 1, 9, 0, 0, 5, 0, 0, 0, 0, 0, 0, 0, 0, 0, 0, 0, 0, 0, 0, 0, 0, 0, 0, 0,
                 0, 0, 0, 0, 0, 0, 0, 0, 3, 0x43, 0x4F, 0x4C],
        err = None\<rparr> = Inr (r2, rd', e) \<and>
     (\<forall>offset. name (names (md_fieldSet r1)) offset = name (names (md_fieldSet r2)) offset)"
  using name_resolution_order_invariant
    [of "[[1, 9, 0, 0, 5, 0, 0, 0, 0, 0, 0, 0, 0, 0, 0, 0, 0, 0, 0, 0, 0, 0, 0, 0],
          [2, 9, 0, 0, 5, 0, 0, 0, 0, 0, 0, 0, 0, 0, 0, 0, 8, 0, 0, 0, 8, 0, 0, 0]]"
        "[[2, 9, 0, 0, 5, 0, 0, 0, 0, 0, 0, 0, 0, 0, 0, 0, 8, 0, 0, 0, 8, 0, 0, 0],
          [1, 9, 0, 0, 5, 0, 0, 0, 0, 0, 0, 0, 0, 0, 0, 0, 0, 0, 0, 0, 0, 0, 0, 0]]"
        "[None, None]" Int64 "[]" LittleEndian "[0, 0, 0, 0, 0, 0, 0, 0, 3, 0x43, 0x4F, 0x4C]"]
  by simp

text \<open>
  C1: name resolution visits the registered offsets in ascending order with a position
  counter that starts at 0; for each offset it skips the difference if the offset is
  greater than the position, reads one short string, stores it under the offset and
  advances the position by one plus the length read. The code does not do this where
  an offset lies below the position counter. With a 64-bit
  \<^verbatim>\<open>int\<close>, \<^verbatim>\<open>int(offset - pos)\<close> is the unsigned difference and is positive whenever
  the offset differs from the position: for one descriptor with the offsets 0, 1, 0, 0
  and the name block 01 41 02 42 43 the position is 2 when offset 1 is visited, the code
  skips 4294967295 bytes, runs into the end of the stream, stores the empty string under
  offset 1 and returns the error, while the resolution as C1 words it skips nothing
  there and resolves offset 1 to the bytes 42 43.
\<close>

theorem resolve_name_offset_below_position:
  "resultMetadata_read Int64
     \<lparr>md_fieldSet = \<lparr>fs_fields = [None], names = []\<rparr>, md_numArg = 1\<rparr>
     \<lparr>order = LittleEndian,
      input = [1, 9, 0, 0, 5, 0, 0, 0, 0, 0, 0, 0, 1, 0, 0, 0, 0, 0, 0, 0, 0, 0, 0, 0,
               1, 0x41, 2, 0x42, 0x43],
      err = None\<rparr> =
   Inr (\<lparr>md_fieldSet =
          \<lparr>fs_fields = [Some \<lparr>columnOptions = 1, tc = 9, fraction = 0, length_fld = 5, offsets = [0, 1, 0, 0]\<rparr>],
           names = [(0, [0x41]), (1, [])]\<rparr>,
         md_numArg = 1\<rparr>,
        \<lparr>order = LittleEndian, input = [], err = Some UnexpectedEOF\<rparr>, Some UnexpectedEOF) \<and>
   spec_resolve [(0, []), (1, [])]
     \<lparr>order = LittleEndian, input = [1, 0x41, 2, 0x42, 0x43], err = None\<rparr> =
   (\<lparr>order = LittleEndian, input = [], err = None\<rparr>, [(0, [0x41]), (1, [0x42, 0x43])], 5)"
  by (simp add: eval_defs)

subsection \<open>Errors returned by the decode operations\<close>

text \<open>The decode of the result set identifier and the decode of the result metadata end
  on the error state of the byte cursor: they return it as it is at the end of the
  decode, an error set before the decode included. The decode of the result metadata
  returns whenever the field slice has room for \<^verbatim>\<open>numArg\<close> fields.\<close>

lemma resultsetID_read_error:
  "snd (snd (resultsetID_read s rd)) = GetError (fst (snd (resultsetID_read s rd)))"
  by (simp add: resultsetID_read_def split: prod.splits)

lemma resultsetID_read_sticky:
  "err rd = Some x \<Longrightarrow> snd (snd (resultsetID_read s rd)) = Some x"
  by (simp add: resultsetID_read_def ReadUint64_def read_bytes_sticky GetError_def)

lemma resultsetID_read_short:
  "err rd = None \<Longrightarrow> length (input rd) < 8 \<Longrightarrow>
   snd (snd (resultsetID_read s rd)) = Some UnexpectedEOF"
  by (simp add: resultsetID_read_def ReadUint64_def read_bytes_def GetError_def)

lemma read_fields_total:
  "i + k \<le> length (fs_fields fs) \<Longrightarrow> \<exists>fs' rd'. read_fields k i fs rd = Inr (fs', rd')"
proof (induction k arbitrary: i fs rd)
  case 0
  show ?case by simp
next
  case (Suc k)
  obtain f nm rd1 where step: "resultField_read newResultField (names fs) rd = (f, nm, rd1)"
    by (cases "resultField_read newResultField (names fs) rd")
  let ?fs = "\<lparr>fs_fields = (fs_fields fs)[i := Some f], names = nm\<rparr>"
  from Suc.prems have "Suc i + k \<le> length (fs_fields ?fs)"
    by simp
  then have "\<exists>fs' rd'. read_fields k (Suc i) ?fs rd1 = Inr (fs', rd')"
    by (rule Suc.IH)
  with step Suc.prems show ?case
    by simp
qed

lemma resultMetadata_read_returns:
  assumes "nat (md_numArg r) \<le> length (fs_fields (md_fieldSet r))"
  shows "\<exists>r' rd'. resultMetadata_read sz r rd = Inr (r', rd', GetError rd')"
proof -
  from assms have "0 + nat (md_numArg r) \<le> length (fs_fields (md_fieldSet r))"
    by simp
  then obtain fs rd1 where "read_fields (nat (md_numArg r)) 0 (md_fieldSet r) rd = Inr (fs, rd1)"
    using read_fields_total by blast
  then show ?thesis
    by (simp add: resultMetadata_read_def split: prod.splits)
qed

text \<open>\<^verbatim>\<open>resultset.read\<close> returns the error of the row decoder and nothing else: with a
  row decoder that ends on the error state of the cursor it returns that state, with
  one that reports no error of its own it returns \<^verbatim>\<open>nil\<close>.\<close>

lemma resultset_read_error:
  "snd (snd (resultset_read fv_read rs rd)) =
     snd (snd (fv_read (fieldValues rs) (rs_numArg rs) (rs_fieldSet rs) rd))"
  by (simp add: resultset_read_def split: prod.splits option.splits)

lemma resultset_read_checked:
  "snd (snd (resultset_read (fv_read_rows_checked read_value) rs rd)) =
     GetError (fst (snd (resultset_read (fv_read_rows_checked read_value) rs rd)))"
  by (simp add: resultset_read_def fv_read_rows_checked_def split: prod.splits option.splits)

lemma resultset_read_unchecked:
  "snd (snd (resultset_read (fv_read_rows read_value) rs rd)) = None"
  by (simp add: resultset_read_def fv_read_rows_def split: prod.splits)


end
